theory Spec2Isabelle
  imports Main
begin

section \<open>Values, objects and exceptions\<close>

text \<open>
  An embedding of \<^verbatim>\<open>src/blpapi/session.py\<close>. The C layer (\<^verbatim>\<open>internals\<close>) and the
  helper modules (\<^verbatim>\<open>exception\<close>, \<^verbatim>\<open>utils\<close>, \<^verbatim>\<open>event\<close>) are not among the sources:
  what they return is a parameter of the model (the record \<open>lib\<close> below), and every call
  the session makes to them is written to a trace, oldest call first.
\<close>

type_synonym handle = nat

text \<open>\<^verbatim>\<open>class SubscriptionPreprocessMode(Enum)\<close>, with the values 1 and 2.\<close>

datatype SubscriptionPreprocessMode = FAIL_ON_FIRST_ERROR | RETURN_INDIVIDUAL_ERRORS

text \<open>
  Modelled from the spec: the correlation token (\<^verbatim>\<open>internals.CorrelationId\<close>), an opaque
  comparable value, supplied by the caller or minted by the session. \<open>CorrelationId None\<close>
  is the value the constructor builds when called without arguments.
\<close>

datatype CorrelationId = CorrelationId "int option"

definition CorrelationId_new :: CorrelationId where
  "CorrelationId_new = CorrelationId None"

text \<open>
  The Python values that reach the arguments whose dynamic type or value the source
  inspects. \<open>PyNumber v\<close> is a number that is not an \<^verbatim>\<open>int\<close> (a float, a \<^verbatim>\<open>Decimal\<close>, a
  \<^verbatim>\<open>Fraction\<close>): \<open>v\<close> is the integer it is equal to, if there is one, and then it hashes
  as that integer does. \<open>PyObject n\<close> is any other object (an Identity, a SubscriptionList,
  an EventQueue, ...), known by its identity.
\<close>

datatype pyobj =
    PyNone
  | PyBool bool
  | PyInt int
  | PyNumber "int option"
  | PyStr string
  | PyMode SubscriptionPreprocessMode
  | PyCorrelationId CorrelationId
  | PyObject nat

text \<open>\<^verbatim>\<open>isinstance(x, CorrelationId)\<close>\<close>

fun isinstance_CorrelationId :: "pyobj \<Rightarrow> bool" where
  "isinstance_CorrelationId (PyCorrelationId c) = True"
| "isinstance_CorrelationId x = False"

text \<open>
  The error classes of the spec's taxonomy; \<open>InvalidArgumentException\<close> is the one class
  \<^verbatim>\<open>session.py\<close> raises by itself.
\<close>

datatype error_class =
    InvalidArgumentException
  | InvalidStateException
  | DuplicateCorrelationIdException
  | TransportRejection

text \<open>
  An exception message: a literal, or a format string with the value that
  \<^verbatim>\<open>str.format\<close> substitutes in it.
\<close>

datatype description = Description string | Formatted string pyobj

text \<open>
  \<open>Blpapi cls msg code\<close> is an exception of the package (\<^verbatim>\<open>cls(msg, code)\<close>);
  \<open>ValueError v cls\<close> is what Python's \<^verbatim>\<open>Enum\<close> raises when \<open>v\<close> is not a value of
  the enumeration \<open>cls\<close>; \<open>AttributeError\<close> is a read of an attribute that was never set;
  \<open>Exception\<close> stands for whatever else a handler raises.
\<close>

datatype exception =
    Blpapi error_class description int
  | ValueError pyobj string
  | AttributeError string
  | Exception string

text \<open>\<^verbatim>\<open>SubscriptionPreprocessError.ErrorCode\<close> and \<^verbatim>\<open>SubscriptionPreprocessError\<close>.\<close>

datatype ErrorCode =
    SUBSCRIPTIONPREPROCESS_INVALID_SUBSCRIPTION_STRING
  | SUBSCRIPTIONPREPROCESS_CORRELATIONID_ERROR

record SubscriptionPreprocessError =
  pe_correlationId :: CorrelationId
  pe_subscriptionString :: string
  pe_errorCode :: ErrorCode
  pe_description :: string

text \<open>\<^verbatim>\<open>Event(handle, sessions)\<close> and \<^verbatim>\<open>RequestTemplate(handle)\<close>, as the session builds them.\<close>

record Event =
  Event_handle :: handle
  Event_sessions :: "nat set"

datatype RequestTemplate = RequestTemplate handle

text \<open>
  A session object: its identity, \<^verbatim>\<open>__handle\<close>, \<^verbatim>\<open>__handler\<close> (set only when a handler was
  given) and \<^verbatim>\<open>__handlerProxy\<close> (the dispatcher bound to a weak reference to the session,
  kept here as the identity of the session it refers to). A handler takes the event and the
  session (by its identity) and returns the exception it raises, if any.
\<close>

record Session =
  sid :: nat
  Session_handle :: handle
  Session_handler :: "(Event \<Rightarrow> nat \<Rightarrow> exception option) option"
  Session_handlerProxy :: "nat option"

section \<open>The collaborators\<close>

text \<open>The functions of \<^verbatim>\<open>internals\<close> that the modelled methods call, with their arguments.\<close>

datatype internals_call =
    Session_createHelper "handle option" "nat option" "handle option"
  | blpapi_Session_getAbstractSession handle
  | blpapi_Session_stop handle
  | blpapi_Session_nextEvent handle int
  | blpapi_Session_tryNextEvent handle
  | blpapi_Session_subscribe handle "handle option" "handle option" string
  | blpapi_Session_subscribeEx_helper handle "handle option" "handle option" string
  | blpapi_Session_resubscribe handle "handle option" string
  | blpapi_Session_resubscribeWithId handle "handle option" int string
  | blpapi_Session_resubscribeEx_helper handle "handle option" string
  | blpapi_Session_resubscribeWithIdEx_helper handle "handle option" int string
  | blpapi_Session_sendRequest handle "handle option" CorrelationId "handle option"
      "handle option" string
  | blpapi_Session_sendRequestTemplate handle "handle option" CorrelationId
  | blpapi_Session_createSnapshotRequestTemplate handle string "handle option" pyobj

text \<open>
  What the absent code answers. \<open>status\<close> is the integer a call returns (0 is success),
  \<open>produced\<close> the handle it hands back (a session, an event, a template), \<open>reported\<close> the
  arguments of the calls a preprocessing helper makes to the error appender it was given,
  in the order it makes them. \<open>errorClass\<close> and \<open>errorDescription\<close> are the class and the
  message \<^verbatim>\<open>_ExceptionUtil\<close> chooses for a status, \<open>get_handle\<close> is \<^verbatim>\<open>utils.get_handle\<close>,
  \<open>SessionOptions_new\<close> the object \<^verbatim>\<open>SessionOptions()\<close> builds, and the last two fields are
  the constants of \<^verbatim>\<open>internals\<close> that give \<^verbatim>\<open>ErrorCode\<close> its values.
\<close>

record lib =
  status :: "internals_call \<Rightarrow> int"
  produced :: "internals_call \<Rightarrow> handle"
  reported :: "internals_call \<Rightarrow> (CorrelationId \<times> string \<times> int \<times> string) list"
  errorClass :: "int \<Rightarrow> error_class"
  errorDescription :: "int \<Rightarrow> string"
  get_handle :: "pyobj \<Rightarrow> handle option"
  SessionOptions_new :: pyobj
  INVALID_SUBSCRIPTION_STRING :: int
  CORRELATIONID_ERROR :: int

text \<open>
  What the session does to the world outside itself: the calls into \<^verbatim>\<open>internals\<close>, the
  calls to \<^verbatim>\<open>atexit\<close>, the invocations of the handler, of an exit hook and of
  \<^verbatim>\<open>EventQueue._registerSession\<close>.
\<close>

datatype effect =
    Internals internals_call
  | Atexit_register nat
  | Atexit_unregister nat
  | Exit_hook nat
  | Handler_call Event nat
  | RegisterSession pyobj nat

datatype stderr_item = Line string | Traceback exception

text \<open>
  \<open>exitfuncs\<close> is the registry of \<^verbatim>\<open>atexit\<close>: each entry is the bound method \<^verbatim>\<open>stop\<close> of
  the session it holds, in registration order.
\<close>

record world =
  trace :: "effect list"
  exitfuncs :: "Session list"
  stderr :: "stderr_item list"

definition invoke :: "world \<Rightarrow> internals_call \<Rightarrow> world" where
  "invoke w c = w\<lparr>trace := trace w @ [Internals c]\<rparr>"

text \<open>
  Modelled from the spec: \<^verbatim>\<open>_ExceptionUtil.raiseOnError\<close> (\<^verbatim>\<open>exception.py\<close>). A status
  other than zero is surfaced to the caller as a raised error of the class that belongs to
  the status; zero raises nothing.
\<close>

definition raiseOnError :: "lib \<Rightarrow> int \<Rightarrow> exception + unit" where
  "raiseOnError l rc =
     (if rc \<noteq> 0 then Inl (Blpapi (errorClass l rc) (Description (errorDescription l rc)) rc)
      else Inr ())"

text \<open>
  \<^verbatim>\<open>SubscriptionPreprocessMode(mode)\<close>: Python's lookup of an enumeration member. A member
  is returned as it is; any other value is looked up among the members' values (1 and 2)
  with the equality of a dictionary key, under which \<^verbatim>\<open>True\<close> is 1 and a number equal to
  an integer is that integer; a value that is not found raises \<^verbatim>\<open>ValueError\<close>.
\<close>

fun SubscriptionPreprocessMode_call :: "pyobj \<Rightarrow> exception + SubscriptionPreprocessMode" where
  "SubscriptionPreprocessMode_call (PyMode m) = Inr m"
| "SubscriptionPreprocessMode_call (PyInt i) =
     (if i = 1 then Inr FAIL_ON_FIRST_ERROR
      else if i = 2 then Inr RETURN_INDIVIDUAL_ERRORS
      else Inl (ValueError (PyInt i) ''SubscriptionPreprocessMode''))"
| "SubscriptionPreprocessMode_call (PyBool b) =
     (if b then Inr FAIL_ON_FIRST_ERROR
      else Inl (ValueError (PyBool b) ''SubscriptionPreprocessMode''))"
| "SubscriptionPreprocessMode_call (PyNumber v) =
     (if v = Some 1 then Inr FAIL_ON_FIRST_ERROR
      else if v = Some 2 then Inr RETURN_INDIVIDUAL_ERRORS
      else Inl (ValueError (PyNumber v) ''SubscriptionPreprocessMode''))"
| "SubscriptionPreprocessMode_call v = Inl (ValueError v ''SubscriptionPreprocessMode'')"

text \<open>
  \<^verbatim>\<open>SubscriptionPreprocessError.ErrorCode(errorCode)\<close>, the same lookup, and the
  \<^verbatim>\<open>value\<close> of a member. Were the two constants equal, the second name would be an alias
  of the first member.
\<close>

definition ErrorCode_call :: "lib \<Rightarrow> int \<Rightarrow> exception + ErrorCode" where
  "ErrorCode_call l v =
     (if v = INVALID_SUBSCRIPTION_STRING l
        then Inr SUBSCRIPTIONPREPROCESS_INVALID_SUBSCRIPTION_STRING
      else if v = CORRELATIONID_ERROR l then Inr SUBSCRIPTIONPREPROCESS_CORRELATIONID_ERROR
      else Inl (ValueError (PyInt v) ''ErrorCode''))"


section \<open>The session\<close>

subsection \<open>The dispatcher\<close>

text \<open>
  How a call that may end the process ends: it returns, it raises, or the process exits
  with a status.
\<close>

datatype 'a outcome = Returns 'a | Raises exception | Exits int

text \<open>
  The body of the \<^verbatim>\<open>try\<close> of \<^verbatim>\<open>Session.__dispatchEvent\<close>: the exception that leaves it, if
  any. \<open>sessionRef\<close> is what dereferencing the weak reference yields.
\<close>

definition dispatchEvent_try ::
  "world \<Rightarrow> Session option \<Rightarrow> handle \<Rightarrow> exception option \<times> world" where
  "dispatchEvent_try w sessionRef eventHandle =
     (case sessionRef of
        None \<Rightarrow> (None, w)
      | Some session \<Rightarrow>
          (let event = \<lparr>Event_handle = eventHandle, Event_sessions = {sid session}\<rparr> in
           case Session_handler session of
             None \<Rightarrow> (Some (AttributeError ''_Session__handler''), w)
           | Some h \<Rightarrow>
               (h event (sid session),
                w\<lparr>trace := trace w @ [Handler_call event (sid session)]\<rparr>)))"

text \<open>\<^verbatim>\<open>Session.__dispatchEvent\<close>: the bare \<^verbatim>\<open>except\<close> catches whatever the body raises.\<close>

definition dispatchEvent ::
  "world \<Rightarrow> Session option \<Rightarrow> handle \<Rightarrow> unit outcome \<times> world" where
  "dispatchEvent w sessionRef eventHandle =
     (case dispatchEvent_try w sessionRef eventHandle of
        (None, w1) \<Rightarrow> (Returns (), w1)
      | (Some e, w1) \<Rightarrow>
          (Exits 1,
           w1\<lparr>stderr := stderr w1 @ [Line ''Exception in event handler:'', Traceback e]\<rparr>))"

subsection \<open>Construction and shutdown\<close>

text \<open>
  \<^verbatim>\<open>Session.__init__\<close>; \<open>self\<close> is the identity of the object under construction.
\<close>

definition Session_init ::
  "lib \<Rightarrow> world \<Rightarrow> nat \<Rightarrow> pyobj \<Rightarrow> (Event \<Rightarrow> nat \<Rightarrow> exception option) option \<Rightarrow> pyobj
     \<Rightarrow> (exception + Session) \<times> world" where
  "Session_init l w self options eventHandler eventDispatcher =
     (if eventHandler = None \<and> eventDispatcher \<noteq> PyNone then
        (Inl (Blpapi InvalidArgumentException
                (Description ''eventDispatcher is specified but eventHandler is None'') 0), w)
      else
        (let options1 = (if options = PyNone then SessionOptions_new l else options);
             handlerProxy = (if eventHandler \<noteq> None then Some self else None);
             c = Session_createHelper (get_handle l options1) handlerProxy
                   (get_handle l eventDispatcher);
             w1 = invoke w c;
             session = \<lparr>sid = self, Session_handle = produced l c,
                        Session_handler = eventHandler,
                        Session_handlerProxy = handlerProxy\<rparr>;
             w2 = w1\<lparr>trace := trace w1 @ [Atexit_register self],
                     exitfuncs := exitfuncs w1 @ [session]\<rparr>;
             w3 = invoke w2 (blpapi_Session_getAbstractSession (Session_handle session))
         in (Inr session, w3)))"

text \<open>
  \<^verbatim>\<open>atexit.unregister(self.stop)\<close>: every registered callable equal to the bound method
  is removed, and two bound methods \<^verbatim>\<open>stop\<close> are equal when they are bound to the same
  object.
\<close>

definition atexit_unregister :: "world \<Rightarrow> Session \<Rightarrow> world" where
  "atexit_unregister w self =
     w\<lparr>trace := trace w @ [Atexit_unregister (sid self)],
       exitfuncs := filter (\<lambda>s. sid s \<noteq> sid self) (exitfuncs w)\<rparr>"

text \<open>\<^verbatim>\<open>Session.stop\<close>\<close>

definition stop :: "lib \<Rightarrow> world \<Rightarrow> Session \<Rightarrow> bool \<times> world" where
  "stop l w self =
     (let w1 = atexit_unregister w self;
          c = blpapi_Session_stop (Session_handle self)
      in (status l c = 0, invoke w1 c))"

text \<open>
  The end of the process: \<^verbatim>\<open>atexit\<close> calls the hooks registered when the exit begins, the
  last registered first, and skips a hook that has been unregistered by then.
\<close>

fun run_exitfuncs :: "lib \<Rightarrow> Session list \<Rightarrow> world \<Rightarrow> world" where
  "run_exitfuncs l [] w = w"
| "run_exitfuncs l (s # pending) w =
     (if sid s \<in> sid ` set (exitfuncs w) then
        run_exitfuncs l pending
          (snd (stop l (w\<lparr>trace := trace w @ [Exit_hook (sid s)]\<rparr>) s))
      else run_exitfuncs l pending w)"

definition process_exit :: "lib \<Rightarrow> world \<Rightarrow> world" where
  "process_exit l w = run_exitfuncs l (rev (exitfuncs w)) w"

subsection \<open>Polling\<close>

text \<open>\<^verbatim>\<open>Session.nextEvent\<close>\<close>

definition nextEvent :: "lib \<Rightarrow> world \<Rightarrow> Session \<Rightarrow> int \<Rightarrow> (exception + Event) \<times> world" where
  "nextEvent l w self timeout =
     (let c = blpapi_Session_nextEvent (Session_handle self) timeout;
          retCode = status l c;
          event = produced l c;
          w1 = invoke w c
      in case raiseOnError l retCode of
           Inl e \<Rightarrow> (Inl e, w1)
         | Inr u \<Rightarrow> (Inr \<lparr>Event_handle = event, Event_sessions = {sid self}\<rparr>, w1))"

text \<open>\<^verbatim>\<open>Session.tryNextEvent\<close>\<close>

definition tryNextEvent :: "lib \<Rightarrow> world \<Rightarrow> Session \<Rightarrow> (exception + Event option) \<times> world" where
  "tryNextEvent l w self =
     (let c = blpapi_Session_tryNextEvent (Session_handle self);
          retCode = status l c;
          event = produced l c;
          w1 = invoke w c
      in if retCode \<noteq> 0 then (Inr None, w1)
         else (Inr (Some \<lparr>Event_handle = event, Event_sessions = {sid self}\<rparr>), w1))"

text \<open>
  Modelled from the spec: the answer of the C layer (\<^verbatim>\<open>internals.blpapi_Session_nextEvent\<close>
  and \<^verbatim>\<open>internals.blpapi_Session_tryNextEvent\<close>) to a poll of a handler-driven session.
  Calling \<^verbatim>\<open>nextEvent\<close> or \<^verbatim>\<open>tryNextEvent\<close> on a session constructed with a handler is a
  programming error of the invalid-state kind: when the session was created with a handler
  proxy, both calls answer with a status other than zero that belongs to the invalid-state
  class.
\<close>

definition handler_session_rejected :: "lib \<Rightarrow> Session \<Rightarrow> int \<Rightarrow> bool" where
  "handler_session_rejected l self timeout =
     (Session_handlerProxy self \<noteq> None \<longrightarrow>
        status l (blpapi_Session_nextEvent (Session_handle self) timeout) \<noteq> 0
        \<and> errorClass l (status l (blpapi_Session_nextEvent (Session_handle self) timeout)) =
            InvalidStateException
        \<and> status l (blpapi_Session_tryNextEvent (Session_handle self)) \<noteq> 0
        \<and> errorClass l (status l (blpapi_Session_tryNextEvent (Session_handle self))) =
            InvalidStateException)"

subsection \<open>Subscriptions\<close>

text \<open>
  The closure \<^verbatim>\<open>errorAppender\<close> that \<^verbatim>\<open>Session._createErrorAppender\<close> returns: it appends
  one error to the list it was created over, unless the lookup of the error code raises.
\<close>

definition errorAppender ::
  "lib \<Rightarrow> SubscriptionPreprocessError list \<Rightarrow> CorrelationId \<times> string \<times> int \<times> string
     \<Rightarrow> exception + SubscriptionPreprocessError list" where
  "errorAppender l errorList args =
     (case args of
        (correlationId, subscriptionString, errorCode, description) \<Rightarrow>
          (case ErrorCode_call l errorCode of
             Inl e \<Rightarrow> Inl e
           | Inr code \<Rightarrow>
               Inr (errorList @
                 [\<lparr>pe_correlationId = correlationId,
                   pe_subscriptionString = subscriptionString,
                   pe_errorCode = code, pe_description = description\<rparr>])))"

text \<open>
  A preprocessing helper calls the appender once for each entry it reports, in the order
  it reports them; an exception that leaves the appender is taken to leave the helper.
\<close>

fun appended ::
  "lib \<Rightarrow> SubscriptionPreprocessError list \<Rightarrow> (CorrelationId \<times> string \<times> int \<times> string) list
     \<Rightarrow> exception + SubscriptionPreprocessError list" where
  "appended l errorList [] = Inr errorList"
| "appended l errorList (args # rest) =
     (case errorAppender l errorList args of
        Inl e \<Rightarrow> Inl e
      | Inr errorList1 \<Rightarrow> appended l errorList1 rest)"


text \<open>
  The two branches that \<^verbatim>\<open>subscribe\<close> and \<^verbatim>\<open>resubscribe\<close> share, given the call into
  \<^verbatim>\<open>internals\<close> that each makes: the status is raised on, and \<^verbatim>\<open>None\<close> or the list that the
  appender has filled is returned.
\<close>

definition fail_on_first_error ::
  "lib \<Rightarrow> world \<Rightarrow> internals_call
     \<Rightarrow> (exception + SubscriptionPreprocessError list option) \<times> world" where
  "fail_on_first_error l w c =
     (let w1 = invoke w c in
      case raiseOnError l (status l c) of
        Inl e \<Rightarrow> (Inl e, w1)
      | Inr u \<Rightarrow> (Inr None, w1))"

definition return_individual_errors ::
  "lib \<Rightarrow> world \<Rightarrow> internals_call
     \<Rightarrow> (exception + SubscriptionPreprocessError list option) \<times> world" where
  "return_individual_errors l w c =
     (let w1 = invoke w c in
      case appended l [] (reported l c) of
        Inl e \<Rightarrow> (Inl e, w1)
      | Inr errorList \<Rightarrow>
          (case raiseOnError l (status l c) of
             Inl e \<Rightarrow> (Inl e, w1)
           | Inr u \<Rightarrow> (Inr (Some errorList), w1)))"

definition unsupported_mode :: "pyobj \<Rightarrow> exception" where
  "unsupported_mode mode =
     Blpapi InvalidArgumentException
       (Formatted (''Unsupported SubscriptionPreprocessMode: '' @ [CHR 0x27] @ ''{}'' @ [CHR 0x27])
          mode) 0"

text \<open>\<^verbatim>\<open>Session.subscribe\<close>\<close>

definition subscribe ::
  "lib \<Rightarrow> world \<Rightarrow> Session \<Rightarrow> pyobj \<Rightarrow> pyobj \<Rightarrow> string \<Rightarrow> pyobj
     \<Rightarrow> (exception + SubscriptionPreprocessError list option) \<times> world" where
  "subscribe l w self subscriptionList identity requestLabel mode =
     (case SubscriptionPreprocessMode_call mode of
        Inl e \<Rightarrow> (Inl e, w)
      | Inr subMode \<Rightarrow>
          if subMode = FAIL_ON_FIRST_ERROR then
            fail_on_first_error l w
              (blpapi_Session_subscribe (Session_handle self) (get_handle l subscriptionList)
                 (get_handle l identity) requestLabel)
          else if subMode = RETURN_INDIVIDUAL_ERRORS then
            return_individual_errors l w
              (blpapi_Session_subscribeEx_helper (Session_handle self)
                 (get_handle l subscriptionList) (get_handle l identity) requestLabel)
          else (Inl (unsupported_mode mode), w))"

text \<open>\<^verbatim>\<open>Session.resubscribe\<close>\<close>

definition resubscribe ::
  "lib \<Rightarrow> world \<Rightarrow> Session \<Rightarrow> pyobj \<Rightarrow> string \<Rightarrow> int option \<Rightarrow> pyobj
     \<Rightarrow> (exception + SubscriptionPreprocessError list option) \<times> world" where
  "resubscribe l w self subscriptionList requestLabel resubscriptionId mode =
     (case SubscriptionPreprocessMode_call mode of
        Inl e \<Rightarrow> (Inl e, w)
      | Inr subMode \<Rightarrow>
          if subMode = FAIL_ON_FIRST_ERROR then
            (case resubscriptionId of
               None \<Rightarrow>
                 fail_on_first_error l w
                   (blpapi_Session_resubscribe (Session_handle self)
                      (get_handle l subscriptionList) requestLabel)
             | Some i \<Rightarrow>
                 fail_on_first_error l w
                   (blpapi_Session_resubscribeWithId (Session_handle self)
                      (get_handle l subscriptionList) i requestLabel))
          else if subMode = RETURN_INDIVIDUAL_ERRORS then
            (case resubscriptionId of
               None \<Rightarrow>
                 return_individual_errors l w
                   (blpapi_Session_resubscribeEx_helper (Session_handle self)
                      (get_handle l subscriptionList) requestLabel)
             | Some i \<Rightarrow>
                 return_individual_errors l w
                   (blpapi_Session_resubscribeWithIdEx_helper (Session_handle self)
                      (get_handle l subscriptionList) i requestLabel))
          else (Inl (unsupported_mode mode), w))"

subsection \<open>Requests\<close>

text \<open>\<^verbatim>\<open>Session.sendRequest\<close>\<close>

definition sendRequest ::
  "lib \<Rightarrow> world \<Rightarrow> Session \<Rightarrow> pyobj \<Rightarrow> pyobj \<Rightarrow> CorrelationId option \<Rightarrow> pyobj \<Rightarrow> string
     \<Rightarrow> (exception + CorrelationId) \<times> world" where
  "sendRequest l w self request identity correlationId eventQueue requestLabel =
     (let cid = (case correlationId of None \<Rightarrow> CorrelationId_new | Some c \<Rightarrow> c);
          c = blpapi_Session_sendRequest (Session_handle self) (get_handle l request) cid
                (get_handle l identity) (get_handle l eventQueue) requestLabel;
          res = status l c;
          w1 = invoke w c
      in case raiseOnError l res of
           Inl e \<Rightarrow> (Inl e, w1)
         | Inr u \<Rightarrow>
             (Inr cid,
              if eventQueue \<noteq> PyNone
              then w1\<lparr>trace := trace w1 @ [RegisterSession eventQueue (sid self)]\<rparr>
              else w1))"

text \<open>\<^verbatim>\<open>Session.sendRequestTemplate\<close>\<close>

definition sendRequestTemplate ::
  "lib \<Rightarrow> world \<Rightarrow> Session \<Rightarrow> pyobj \<Rightarrow> CorrelationId option
     \<Rightarrow> (exception + CorrelationId) \<times> world" where
  "sendRequestTemplate l w self requestTemplate correlationId =
     (let cid = (case correlationId of None \<Rightarrow> CorrelationId_new | Some c \<Rightarrow> c);
          c = blpapi_Session_sendRequestTemplate (Session_handle self)
                (get_handle l requestTemplate) cid;
          res = status l c;
          w1 = invoke w c
      in case raiseOnError l res of
           Inl e \<Rightarrow> (Inl e, w1)
         | Inr u \<Rightarrow> (Inr cid, w1))"

text \<open>\<^verbatim>\<open>Session.createSnapshotRequestTemplate\<close>\<close>

definition createSnapshotRequestTemplate ::
  "lib \<Rightarrow> world \<Rightarrow> Session \<Rightarrow> string \<Rightarrow> pyobj \<Rightarrow> pyobj
     \<Rightarrow> (exception + RequestTemplate) \<times> world" where
  "createSnapshotRequestTemplate l w self subscriptionString correlationId identity =
     (let (cidArg, identityArg) =
            (if isinstance_CorrelationId identity then (identity, correlationId)
             else (correlationId, identity));
          c = blpapi_Session_createSnapshotRequestTemplate (Session_handle self)
                subscriptionString (get_handle l identityArg) cidArg;
          rc = status l c;
          template = produced l c;
          w1 = invoke w c
      in case raiseOnError l rc of
           Inl e \<Rightarrow> (Inl e, w1)
         | Inr u \<Rightarrow> (Inr (RequestTemplate template), w1))"

section \<open>Concrete collaborators\<close>

text \<open>
  A library that accepts every call, one that rejects every call with the status 5 of the
  invalid-state class, and one that reports two invalid entries to the appender.
\<close>

definition lib_ok :: lib where
  "lib_ok =
     \<lparr>status = (\<lambda>c. 0), produced = (\<lambda>c. 7), reported = (\<lambda>c. []),
      errorClass = (\<lambda>rc. TransportRejection), errorDescription = (\<lambda>rc. ''rejected''),
      get_handle = (\<lambda>x. case x of PyObject n \<Rightarrow> Some n | _ \<Rightarrow> None),
      SessionOptions_new = PyObject 0,
      INVALID_SUBSCRIPTION_STRING = 1, CORRELATIONID_ERROR = 2\<rparr>"

definition lib_rejecting :: lib where
  "lib_rejecting = lib_ok\<lparr>status := (\<lambda>c. 5), errorClass := (\<lambda>rc. InvalidStateException)\<rparr>"



definition world0 :: world where
  "world0 = \<lparr>trace = [], exitfuncs = [], stderr = []\<rparr>"

definition session_sync :: Session where
  "session_sync =
     \<lparr>sid = 1, Session_handle = 7, Session_handler = None, Session_handlerProxy = None\<rparr>"

definition handler_ok :: "Event \<Rightarrow> nat \<Rightarrow> exception option" where
  "handler_ok event session = None"

definition handler_failing :: "Event \<Rightarrow> nat \<Rightarrow> exception option" where
  "handler_failing event session = Some (Exception ''boom'')"

definition session_async :: Session where
  "session_async =
     \<lparr>sid = 2, Session_handle = 8, Session_handler = Some handler_failing,
      Session_handlerProxy = Some 2\<rparr>"

text \<open>
  The session and the world that the constructor builds from \<open>world0\<close> on \<open>lib_ok\<close>,
  with neither handler nor dispatcher.
\<close>

definition session_built :: Session where
  "session_built =
     \<lparr>sid = 1, Session_handle = 7, Session_handler = None, Session_handlerProxy = None\<rparr>"

definition world_built :: world where
  "world_built =
     \<lparr>trace = [Internals (Session_createHelper (Some 0) None None), Atexit_register 1,
               Internals (blpapi_Session_getAbstractSession 7)],
      exitfuncs = [session_built], stderr = []\<rparr>"

text \<open>
  The session and the world that the constructor builds from \<open>world0\<close> on \<open>lib_rejecting\<close>,
  with the handler \<open>handler_failing\<close> and no dispatcher.
\<close>

definition session_handled :: Session where
  "session_handled =
     \<lparr>sid = 2, Session_handle = 7, Session_handler = Some handler_failing,
      Session_handlerProxy = Some 2\<rparr>"

definition world_handled :: world where
  "world_handled =
     \<lparr>trace = [Internals (Session_createHelper (Some 0) (Some 2) None), Atexit_register 2,
               Internals (blpapi_Session_getAbstractSession 7)],
      exitfuncs = [session_handled], stderr = []\<rparr>"

section \<open>The preprocessing branches\<close>




lemma appended_total:
  "\<forall>r \<in> set reps. fst (snd (snd r)) = INVALID_SUBSCRIPTION_STRING l \<or> fst (snd (snd r)) = CORRELATIONID_ERROR l
    \<Longrightarrow> \<exists>errs. appended l acc reps = Inr errs"
proof (induction reps arbitrary: acc)
  case Nil
  then show ?case by simp
next
  case (Cons r reps)
  obtain a b c d where r: "r = (a, b, c, d)" by (cases r)
  with Cons.prems have "c = INVALID_SUBSCRIPTION_STRING l \<or> c = CORRELATIONID_ERROR l" by simp
  then have "\<exists>acc1. errorAppender l acc r = Inr acc1"
    by (auto simp: errorAppender_def ErrorCode_call_def r)
  then obtain acc1 where "errorAppender l acc r = Inr acc1" ..
  moreover from Cons.prems have "\<forall>r \<in> set reps. fst (snd (snd r)) = INVALID_SUBSCRIPTION_STRING l \<or> fst (snd (snd r)) = CORRELATIONID_ERROR l" by simp
  from Cons.IH [OF this] obtain errs where "appended l acc1 reps = Inr errs" by blast
  ultimately show ?case by auto
qed

lemma fail_on_first_error_result:
  "fst (fail_on_first_error l w c) =
     (if status l c = 0 then Inr None
      else Inl (Blpapi (errorClass l (status l c)) (Description (errorDescription l (status l c))) (status l c)))"
  by (simp add: fail_on_first_error_def raiseOnError_def Let_def)



lemma return_individual_errors_returns:
  "status l c = 0 \<Longrightarrow>
   \<forall>r \<in> set (reported l c). fst (snd (snd r)) = INVALID_SUBSCRIPTION_STRING l \<or> fst (snd (snd r)) = CORRELATIONID_ERROR l \<Longrightarrow>
   \<exists>errs. fst (return_individual_errors l w c) = Inr (Some errs)"
  using appended_total [of "reported l c" l "[]"]
  by (auto simp: return_individual_errors_def Let_def raiseOnError_def split: sum.splits)

lemma errorAppender_raises:
  "errorAppender l acc r = Inl e \<Longrightarrow> \<exists>v. e = ValueError v ''ErrorCode''"
  by (cases r) (auto simp: errorAppender_def ErrorCode_call_def split: if_splits)

lemma appended_raises:
  "appended l acc reps = Inl e \<Longrightarrow> \<exists>v. e = ValueError v ''ErrorCode''"
proof (induction reps arbitrary: acc)
  case Nil
  then show ?case by simp
next
  case (Cons r reps)
  show ?case
  proof (cases "errorAppender l acc r")
    case (Inl e1)
    with Cons.prems have "e1 = e" by simp
    with Inl show ?thesis by (auto dest: errorAppender_raises)
  next
    case (Inr acc1)
    with Cons.prems have "appended l acc1 reps = Inl e" by simp
    then show ?thesis by (rule Cons.IH)
  qed
qed

lemma fail_on_first_error_not_unsupported:
  "fst (fail_on_first_error l w c) \<noteq> Inl (unsupported_mode m)"
  by (simp add: fail_on_first_error_result unsupported_mode_def)

lemma return_individual_errors_not_unsupported:
  "fst (return_individual_errors l w c) \<noteq> Inl (unsupported_mode m)"
proof (cases "appended l [] (reported l c)")
  case (Inl e)
  then obtain v where "e = ValueError v ''ErrorCode''" by (auto dest: appended_raises)
  with Inl show ?thesis
    by (simp add: return_individual_errors_def Let_def unsupported_mode_def)
next
  case (Inr errs)
  then show ?thesis
    by (simp add: return_individual_errors_def Let_def raiseOnError_def unsupported_mode_def)
qed

lemma subscribe_not_unsupported:
  "fst (subscribe l w self sl ident label mode) \<noteq> Inl (unsupported_mode mode)"
proof (cases "SubscriptionPreprocessMode_call mode")
  case (Inl e)
  then have "\<exists>v. e = ValueError v ''SubscriptionPreprocessMode''"
    by (cases mode) (auto split: if_splits)
  with Inl show ?thesis by (auto simp: subscribe_def unsupported_mode_def)
next
  case (Inr m)
  then show ?thesis
    by (cases m)
      (simp_all add: subscribe_def fail_on_first_error_not_unsupported
        return_individual_errors_not_unsupported)
qed

lemma resubscribe_not_unsupported:
  "fst (resubscribe l w self sl label rid mode) \<noteq> Inl (unsupported_mode mode)"
proof (cases "SubscriptionPreprocessMode_call mode")
  case (Inl e)
  then have "\<exists>v. e = ValueError v ''SubscriptionPreprocessMode''"
    by (cases mode) (auto split: if_splits)
  with Inl show ?thesis by (auto simp: resubscribe_def unsupported_mode_def)
next
  case (Inr m)
  then show ?thesis
    by (cases m; cases rid)
      (simp_all add: resubscribe_def fail_on_first_error_not_unsupported
        return_individual_errors_not_unsupported)
qed

section \<open>Unsupported preprocessing modes\<close>

text \<open>
  C4. The last branch of \<^verbatim>\<open>subscribe\<close> and \<^verbatim>\<open>resubscribe\<close> raises
  \<^verbatim>\<open>InvalidArgumentException\<close> for a mode that is not a supported
  \<^verbatim>\<open>SubscriptionPreprocessMode\<close>, but no mode reaches it: with the mode 3 both raise the
  \<^verbatim>\<open>ValueError\<close> of the enumeration lookup in their first statement, before any call into
  the library, and for no mode at all does either of them raise the exception of the last
  branch.
\<close>

theorem unsupported_mode_raises_ValueError:
  "subscribe l w self sl ident label (PyInt 3) =
     (Inl (ValueError (PyInt 3) ''SubscriptionPreprocessMode''), w)
   \<and> resubscribe l w self sl label rid (PyInt 3) =
     (Inl (ValueError (PyInt 3) ''SubscriptionPreprocessMode''), w)
   \<and> fst (subscribe l w self sl ident label mode) \<noteq> Inl (unsupported_mode mode)
   \<and> fst (resubscribe l w self sl label rid mode) \<noteq> Inl (unsupported_mode mode)"
proof (intro conjI)
  show "subscribe l w self sl ident label (PyInt 3) =
     (Inl (ValueError (PyInt 3) ''SubscriptionPreprocessMode''), w)"
    by (simp add: subscribe_def)
  show "resubscribe l w self sl label rid (PyInt 3) =
     (Inl (ValueError (PyInt 3) ''SubscriptionPreprocessMode''), w)"
    by (simp add: resubscribe_def)
  show "fst (subscribe l w self sl ident label mode) \<noteq> Inl (unsupported_mode mode)"
    by (rule subscribe_not_unsupported)
  show "fst (resubscribe l w self sl label rid mode) \<noteq> Inl (unsupported_mode mode)"
    by (rule resubscribe_not_unsupported)
qed

section \<open>Polling a session that has a handler\<close>

lemma Session_init_with_handler:
  "Session_init l w0 self options (Some eventHandler) eventDispatcher = (Inr s, w1)
    \<Longrightarrow> Session_handlerProxy s = Some self \<and> Session_handler s = Some eventHandler"
  by (auto simp: Session_init_def Let_def)

text \<open>
  C2, as amended. On every session that the constructor has built with a handler, the
  library rejecting the poll as the spec says, \<^verbatim>\<open>nextEvent\<close> raises
  \<^verbatim>\<open>InvalidStateException\<close> with the status of the library, and \<^verbatim>\<open>tryNextEvent\<close> does not
  fail: it makes the call and returns \<^verbatim>\<open>None\<close>.
\<close>

theorem polling_a_session_with_handler:
  assumes "Session_init l w0 self options (Some eventHandler) eventDispatcher = (Inr s, w1)"
    and "handler_session_rejected l s timeout"
  shows "fst (nextEvent l w s timeout) =
           Inl (Blpapi InvalidStateException
                  (Description (errorDescription l
                     (status l (blpapi_Session_nextEvent (Session_handle s) timeout))))
                  (status l (blpapi_Session_nextEvent (Session_handle s) timeout)))
    \<and> tryNextEvent l w s =
          (Inr None, invoke w (blpapi_Session_tryNextEvent (Session_handle s)))"
proof -
  from Session_init_with_handler [OF assms(1)] have "Session_handlerProxy s \<noteq> None" by simp
  with assms(2) have
    n: "status l (blpapi_Session_nextEvent (Session_handle s) timeout) \<noteq> 0"
    and c: "errorClass l (status l (blpapi_Session_nextEvent (Session_handle s) timeout)) =
            InvalidStateException"
    and t: "status l (blpapi_Session_tryNextEvent (Session_handle s)) \<noteq> 0"
    by (simp_all add: handler_session_rejected_def)
  from n c have "fst (nextEvent l w s timeout) =
           Inl (Blpapi InvalidStateException
                  (Description (errorDescription l
                     (status l (blpapi_Session_nextEvent (Session_handle s) timeout))))
                  (status l (blpapi_Session_nextEvent (Session_handle s) timeout)))"
    by (simp add: nextEvent_def raiseOnError_def Let_def)
  moreover from t have "tryNextEvent l w s =
          (Inr None, invoke w (blpapi_Session_tryNextEvent (Session_handle s)))"
    by (simp add: tryNextEvent_def Let_def)
  ultimately show ?thesis by simp
qed

lemma init_handled:
  "Session_init lib_rejecting world0 2 PyNone (Some handler_failing) PyNone =
     (Inr session_handled, world_handled)"
  by (simp add: Session_init_def Let_def invoke_def lib_rejecting_def lib_ok_def world0_def
      session_handled_def world_handled_def)

lemma rejected_handled: "handler_session_rejected lib_rejecting session_handled 0"
  by (simp add: handler_session_rejected_def lib_rejecting_def lib_ok_def)

text \<open>
  A session built with a handler on a library that answers every call with the status 5
  of the invalid-state class.
\<close>

theorem polling_a_session_with_handler_witness:
  "Session_init lib_rejecting world0 2 PyNone (Some handler_failing) PyNone =
     (Inr session_handled, world_handled)
   \<and> handler_session_rejected lib_rejecting session_handled 0
   \<and> fst (nextEvent lib_rejecting world_handled session_handled 0) =
       Inl (Blpapi InvalidStateException (Description ''rejected'') 5)
   \<and> fst (tryNextEvent lib_rejecting world_handled session_handled) = Inr None"
  using polling_a_session_with_handler [OF init_handled rejected_handled, of world_handled]
    init_handled rejected_handled
  by (simp add: lib_rejecting_def lib_ok_def)

text \<open>
  C2 as it was stated fails in its second half: on a session with a handler and that
  library, \<^verbatim>\<open>nextEvent\<close> raises \<^verbatim>\<open>InvalidStateException\<close>, and \<^verbatim>\<open>tryNextEvent\<close> returns
  \<^verbatim>\<open>None\<close> instead of failing.
\<close>

theorem tryNextEvent_returns_None_counterexample:
  "Session_handler session_async \<noteq> None
   \<and> fst (nextEvent lib_rejecting world0 session_async 0) =
       Inl (Blpapi InvalidStateException (Description ''rejected'') 5)
   \<and> fst (tryNextEvent lib_rejecting world0 session_async) = Inr None"
  by (simp add: nextEvent_def tryNextEvent_def raiseOnError_def Let_def lib_rejecting_def
      lib_ok_def session_async_def)

section \<open>The argument order of snapshot request templates\<close>

text \<open>
  C3. When the value in the identity slot is a \<^verbatim>\<open>CorrelationId\<close>,
  \<^verbatim>\<open>createSnapshotRequestTemplate\<close> passes it to the library as the correlation token and
  passes the value of the correlationId slot as the identity; otherwise both are passed as
  positioned. So a call in the old argument order does what the call in the new order does.
\<close>

theorem createSnapshotRequestTemplate_swaps:
  "(isinstance_CorrelationId identity \<longrightarrow>
      trace (snd (createSnapshotRequestTemplate l w self s correlationId identity)) =
        trace w @ [Internals (blpapi_Session_createSnapshotRequestTemplate (Session_handle self) s
                     (get_handle l correlationId) identity)])
   \<and> (\<not> isinstance_CorrelationId identity \<longrightarrow>
      trace (snd (createSnapshotRequestTemplate l w self s correlationId identity)) =
        trace w @ [Internals (blpapi_Session_createSnapshotRequestTemplate (Session_handle self) s
                     (get_handle l identity) correlationId)])
   \<and> (isinstance_CorrelationId identity \<and> \<not> isinstance_CorrelationId correlationId \<longrightarrow>
      createSnapshotRequestTemplate l w self s correlationId identity =
        createSnapshotRequestTemplate l w self s identity correlationId)"
  by (simp add: createSnapshotRequestTemplate_def Let_def invoke_def split: sum.splits)

text \<open>
  Both orders of an identity and a correlation id reach the library as the same call.
\<close>

theorem createSnapshotRequestTemplate_swaps_witness:
  "trace (snd (createSnapshotRequestTemplate lib_ok world0 session_sync ''//blp/mktdata/IBM''
       (PyObject 4) (PyCorrelationId (CorrelationId (Some 9))))) =
     [Internals (blpapi_Session_createSnapshotRequestTemplate 7 ''//blp/mktdata/IBM'' (Some 4)
        (PyCorrelationId (CorrelationId (Some 9))))]
   \<and> trace (snd (createSnapshotRequestTemplate lib_ok world0 session_sync ''//blp/mktdata/IBM''
       (PyCorrelationId (CorrelationId (Some 9))) (PyObject 4))) =
     [Internals (blpapi_Session_createSnapshotRequestTemplate 7 ''//blp/mktdata/IBM'' (Some 4)
        (PyCorrelationId (CorrelationId (Some 9))))]"
  using createSnapshotRequestTemplate_swaps
    [of "PyCorrelationId (CorrelationId (Some 9))" lib_ok world0 session_sync
      "''//blp/mktdata/IBM''" "PyObject 4"]
    createSnapshotRequestTemplate_swaps
    [of "PyObject 4" lib_ok world0 session_sync
      "''//blp/mktdata/IBM''" "PyCorrelationId (CorrelationId (Some 9))"]
  by (simp add: lib_ok_def world0_def session_sync_def)

section \<open>The dispatcher\<close>

text \<open>
  C9. When the weak reference yields \<^verbatim>\<open>None\<close>, the dispatcher returns without raising
  and leaves the world as it was: no handler is invoked and nothing is printed.
\<close>

theorem dispatch_drops_event_of_dead_session:
  "dispatchEvent w None eventHandle = (Returns (), w)"
  by (simp add: dispatchEvent_def dispatchEvent_try_def)

text \<open>
  C6. When the handler of a live session raises an exception on the event, the dispatcher
  prints its header line and the traceback of that exception to stderr and ends the process
  with the exit status 1: it neither returns nor raises.
\<close>

theorem handler_exception_ends_process:
  assumes "Session_handler session = Some h"
    and "h \<lparr>Event_handle = eventHandle, Event_sessions = {sid session}\<rparr> (sid session) = Some e"
  shows "dispatchEvent w (Some session) eventHandle =
    (Exits 1,
     w\<lparr>trace := trace w @
          [Handler_call \<lparr>Event_handle = eventHandle, Event_sessions = {sid session}\<rparr> (sid session)],
       stderr := stderr w @ [Line ''Exception in event handler:'', Traceback e]\<rparr>)"
  using assms by (simp add: dispatchEvent_def dispatchEvent_try_def Let_def)

text \<open>
  A handler that raises on every event, dispatched to from an empty world.
\<close>

theorem handler_exception_ends_process_witness:
  "dispatchEvent world0 (Some session_async) 3 =
    (Exits 1,
     \<lparr>trace = [Handler_call \<lparr>Event_handle = 3, Event_sessions = {2}\<rparr> 2],
      exitfuncs = [],
      stderr = [Line ''Exception in event handler:'', Traceback (Exception ''boom'')]\<rparr>)"
  using handler_exception_ends_process
    [of session_async handler_failing 3 "Exception ''boom''" world0]
  by (simp add: session_async_def handler_failing_def world0_def)

section \<open>Requests\<close>

text \<open>
  C5. When \<^verbatim>\<open>sendRequest\<close> or \<^verbatim>\<open>sendRequestTemplate\<close> returns, it returns the token the
  caller supplied, and when none was supplied it returns the \<^verbatim>\<open>CorrelationId\<close> it has just
  built, which is the one it gave the library. Both do return when the library answers
  with the status zero.
\<close>

theorem send_returns_token_used:
  "(fst (sendRequest l w self request identity (Some c) q label) = Inr r \<longrightarrow> r = c)
   \<and> (fst (sendRequest l w self request identity None q label) = Inr r \<longrightarrow>
        r = CorrelationId_new
        \<and> Internals (blpapi_Session_sendRequest (Session_handle self) (get_handle l request)
              CorrelationId_new (get_handle l identity) (get_handle l q) label)
            \<in> set (trace (snd (sendRequest l w self request identity None q label))))
   \<and> (status l (blpapi_Session_sendRequest (Session_handle self) (get_handle l request) c
          (get_handle l identity) (get_handle l q) label) = 0 \<longrightarrow>
        fst (sendRequest l w self request identity (Some c) q label) = Inr c)
   \<and> (fst (sendRequestTemplate l w self template (Some c)) = Inr r \<longrightarrow> r = c)
   \<and> (fst (sendRequestTemplate l w self template None) = Inr r \<longrightarrow>
        r = CorrelationId_new
        \<and> Internals (blpapi_Session_sendRequestTemplate (Session_handle self)
              (get_handle l template) CorrelationId_new)
            \<in> set (trace (snd (sendRequestTemplate l w self template None))))
   \<and> (status l (blpapi_Session_sendRequestTemplate (Session_handle self)
          (get_handle l template) c) = 0 \<longrightarrow>
        fst (sendRequestTemplate l w self template (Some c)) = Inr c)"
proof (intro conjI impI)
  assume "fst (sendRequest l w self request identity (Some c) q label) = Inr r"
  then show "r = c"
    by (simp add: sendRequest_def Let_def split: sum.splits)
next
  assume a: "fst (sendRequest l w self request identity None q label) = Inr r"
  then show "r = CorrelationId_new"
    by (simp add: sendRequest_def Let_def split: sum.splits)
  from a show "Internals (blpapi_Session_sendRequest (Session_handle self) (get_handle l request)
              CorrelationId_new (get_handle l identity) (get_handle l q) label)
            \<in> set (trace (snd (sendRequest l w self request identity None q label)))"
    by (simp add: sendRequest_def Let_def invoke_def split: sum.splits)
next
  assume "status l (blpapi_Session_sendRequest (Session_handle self) (get_handle l request) c
          (get_handle l identity) (get_handle l q) label) = 0"
  then show "fst (sendRequest l w self request identity (Some c) q label) = Inr c"
    by (simp add: sendRequest_def Let_def raiseOnError_def)
next
  assume "fst (sendRequestTemplate l w self template (Some c)) = Inr r"
  then show "r = c"
    by (simp add: sendRequestTemplate_def Let_def split: sum.splits)
next
  assume a: "fst (sendRequestTemplate l w self template None) = Inr r"
  then show "r = CorrelationId_new"
    by (simp add: sendRequestTemplate_def Let_def split: sum.splits)
  from a show "Internals (blpapi_Session_sendRequestTemplate (Session_handle self)
              (get_handle l template) CorrelationId_new)
            \<in> set (trace (snd (sendRequestTemplate l w self template None)))"
    by (simp add: sendRequestTemplate_def Let_def invoke_def split: sum.splits)
next
  assume "status l (blpapi_Session_sendRequestTemplate (Session_handle self)
          (get_handle l template) c) = 0"
  then show "fst (sendRequestTemplate l w self template (Some c)) = Inr c"
    by (simp add: sendRequestTemplate_def Let_def raiseOnError_def)
qed

text \<open>
  Both methods, with and without a token, on a library that accepts every call.
\<close>

theorem send_returns_token_used_witness:
  "fst (sendRequest lib_ok world0 session_sync (PyObject 5) PyNone
          (Some (CorrelationId (Some 42))) PyNone ''label'') = Inr (CorrelationId (Some 42))
   \<and> fst (sendRequest lib_ok world0 session_sync (PyObject 5) PyNone None PyNone ''label'') =
        Inr CorrelationId_new
   \<and> fst (sendRequestTemplate lib_ok world0 session_sync (PyObject 6)
          (Some (CorrelationId (Some 42)))) = Inr (CorrelationId (Some 42))
   \<and> fst (sendRequestTemplate lib_ok world0 session_sync (PyObject 6) None) =
        Inr CorrelationId_new"
  using send_returns_token_used
    [of lib_ok world0 session_sync "PyObject 5" PyNone "CorrelationId (Some 42)" PyNone
      "''label''" "CorrelationId (Some 42)" "PyObject 6"]
    send_returns_token_used
    [of lib_ok world0 session_sync "PyObject 5" PyNone "CorrelationId (Some 42)" PyNone
      "''label''" CorrelationId_new "PyObject 6"]
  by (simp add: sendRequest_def sendRequestTemplate_def raiseOnError_def Let_def lib_ok_def)

text \<open>
  C10. When the library answers \<^verbatim>\<open>sendRequest\<close> with a status other than zero, the
  method raises and has done nothing but the call to the library: the event queue is not
  registered with the session, and the token of the caller is what it was. When the status
  is zero and an event queue was given, the registration follows the call.
\<close>

theorem failed_sendRequest_registers_nothing:
  assumes "cid = (case correlationId of None \<Rightarrow> CorrelationId_new | Some c \<Rightarrow> c)"
    and "call = blpapi_Session_sendRequest (Session_handle self) (get_handle l request) cid
           (get_handle l identity) (get_handle l eventQueue) label"
  shows "(status l call \<noteq> 0 \<longrightarrow>
            sendRequest l w self request identity correlationId eventQueue label =
              (Inl (Blpapi (errorClass l (status l call))
                      (Description (errorDescription l (status l call))) (status l call)),
               w\<lparr>trace := trace w @ [Internals call]\<rparr>))
     \<and> (status l call = 0 \<and> eventQueue \<noteq> PyNone \<longrightarrow>
            sendRequest l w self request identity correlationId eventQueue label =
              (Inr cid,
               w\<lparr>trace := trace w @ [Internals call, RegisterSession eventQueue (sid self)]\<rparr>))"
  using assms by (simp add: sendRequest_def Let_def raiseOnError_def invoke_def)

text \<open>
  A rejected and an accepted request, each with an event queue.
\<close>

theorem failed_sendRequest_registers_nothing_witness:
  "sendRequest lib_rejecting world0 session_sync (PyObject 5) PyNone
       (Some (CorrelationId (Some 42))) (PyObject 9) ''label'' =
     (Inl (Blpapi InvalidStateException (Description ''rejected'') 5),
      \<lparr>trace = [Internals (blpapi_Session_sendRequest 7 (Some 5) (CorrelationId (Some 42)) None
                  (Some 9) ''label'')],
       exitfuncs = [], stderr = []\<rparr>)
   \<and> sendRequest lib_ok world0 session_sync (PyObject 5) PyNone
       (Some (CorrelationId (Some 42))) (PyObject 9) ''label'' =
     (Inr (CorrelationId (Some 42)),
      \<lparr>trace = [Internals (blpapi_Session_sendRequest 7 (Some 5) (CorrelationId (Some 42)) None
                  (Some 9) ''label''), RegisterSession (PyObject 9) 1],
       exitfuncs = [], stderr = []\<rparr>)"
  using failed_sendRequest_registers_nothing
    [of "CorrelationId (Some 42)" "Some (CorrelationId (Some 42))" _ session_sync lib_rejecting
      "PyObject 5" PyNone "PyObject 9" "''label''" world0, OF _ refl]
    failed_sendRequest_registers_nothing
    [of "CorrelationId (Some 42)" "Some (CorrelationId (Some 42))" _ session_sync lib_ok
      "PyObject 5" PyNone "PyObject 9" "''label''" world0, OF _ refl]
  by (simp add: lib_rejecting_def lib_ok_def session_sync_def world0_def)

section \<open>Construction\<close>

text \<open>
  C7. A dispatcher given without a handler makes the constructor raise
  \<^verbatim>\<open>InvalidArgumentException\<close> before it has called the library or \<^verbatim>\<open>atexit\<close>: the world
  is unchanged, so no session handle was created. Every other combination of handler and
  dispatcher passes the check, and the constructor returns the session.
\<close>

theorem Session_init_validation:
  "(eventDispatcher \<noteq> PyNone \<longrightarrow>
      Session_init l w self options None eventDispatcher =
        (Inl (Blpapi InvalidArgumentException
               (Description ''eventDispatcher is specified but eventHandler is None'') 0), w))
   \<and> (eventHandler \<noteq> None \<or> eventDispatcher = PyNone \<longrightarrow>
      (\<exists>s w1. Session_init l w self options eventHandler eventDispatcher = (Inr s, w1)
         \<and> sid s = self \<and> Session_handler s = eventHandler
         \<and> Session_handle s \<in> range (produced l)
         \<and> length (trace w1) = length (trace w) + 3))"
  by (auto simp: Session_init_def Let_def invoke_def)

text \<open>
  The four combinations of a handler and a dispatcher.
\<close>

theorem Session_init_validation_witness:
  "Session_init lib_ok world0 1 PyNone None (PyObject 3) =
        (Inl (Blpapi InvalidArgumentException
               (Description ''eventDispatcher is specified but eventHandler is None'') 0), world0)
   \<and> (\<exists>s w1. Session_init lib_ok world0 1 PyNone None PyNone = (Inr s, w1))
   \<and> (\<exists>s w1. Session_init lib_ok world0 1 PyNone (Some handler_ok) PyNone = (Inr s, w1))
   \<and> (\<exists>s w1. Session_init lib_ok world0 1 PyNone (Some handler_ok) (PyObject 3) = (Inr s, w1))"
  using Session_init_validation [of "PyObject 3" lib_ok world0 1 PyNone None]
    Session_init_validation [of PyNone lib_ok world0 1 PyNone None]
    Session_init_validation [of PyNone lib_ok world0 1 PyNone "Some handler_ok"]
    Session_init_validation [of "PyObject 3" lib_ok world0 1 PyNone "Some handler_ok"]
  by auto

section \<open>The two preprocessing modes\<close>



















section \<open>The exit hook\<close>

lemma stop_trace:
  "trace (snd (stop l w s)) =
     trace w @ [Atexit_unregister (sid s), Internals (blpapi_Session_stop (Session_handle s))]"
  by (simp add: stop_def atexit_unregister_def invoke_def Let_def)

lemma stop_exitfuncs:
  "exitfuncs (snd (stop l w s)) = filter (\<lambda>t. sid t \<noteq> sid s) (exitfuncs w)"
  by (simp add: stop_def atexit_unregister_def invoke_def Let_def)

lemma run_exitfuncs_trace:
  "\<exists>t. trace (run_exitfuncs l p w) = trace w @ t
        \<and> (\<forall>i. Exit_hook i \<in> set t \<longrightarrow> i \<in> sid ` set (exitfuncs w))"
proof (induction p arbitrary: w)
  case Nil
  show ?case by simp
next
  case (Cons x p)
  show ?case
  proof (cases "sid x \<in> sid ` set (exitfuncs w)")
    case False
    with Cons.IH [of w] show ?thesis by simp
  next
    case True
    define w1 where "w1 = snd (stop l (w\<lparr>trace := trace w @ [Exit_hook (sid x)]\<rparr>) x)"
    have tr: "trace w1 = trace w @ [Exit_hook (sid x), Atexit_unregister (sid x),
        Internals (blpapi_Session_stop (Session_handle x))]"
      by (simp add: w1_def stop_trace)
    have ex: "set (exitfuncs w1) \<subseteq> set (exitfuncs w)"
      by (auto simp: w1_def stop_exitfuncs)
    from Cons.IH [of w1] obtain t where
      t: "trace (run_exitfuncs l p w1) = trace w1 @ t"
      and h: "\<forall>i. Exit_hook i \<in> set t \<longrightarrow> i \<in> sid ` set (exitfuncs w1)"
      by blast
    have run: "run_exitfuncs l (x # p) w = run_exitfuncs l p w1"
      using True by (simp add: w1_def)
    have "trace (run_exitfuncs l (x # p) w) =
        trace w @ ([Exit_hook (sid x), Atexit_unregister (sid x),
          Internals (blpapi_Session_stop (Session_handle x))] @ t)"
      unfolding run t tr by simp
    moreover have "\<forall>i. Exit_hook i \<in> set ([Exit_hook (sid x), Atexit_unregister (sid x),
          Internals (blpapi_Session_stop (Session_handle x))] @ t)
        \<longrightarrow> i \<in> sid ` set (exitfuncs w)"
      using True h ex by auto
    ultimately show ?thesis by blast
  qed
qed

lemma run_exitfuncs_calls_registered:
  "s \<in> set p \<Longrightarrow> sid s \<in> sid ` set (exitfuncs w)
    \<Longrightarrow> Exit_hook (sid s) \<in> set (trace (run_exitfuncs l p w))"
proof (induction p arbitrary: w)
  case Nil
  then show ?case by simp
next
  case (Cons x p)
  show ?case
  proof (cases "sid x \<in> sid ` set (exitfuncs w)")
    case False
    with Cons.prems have "s \<in> set p" by auto
    with Cons.IH [of w] Cons.prems False show ?thesis by simp
  next
    case True
    define w1 where "w1 = snd (stop l (w\<lparr>trace := trace w @ [Exit_hook (sid x)]\<rparr>) x)"
    have run: "run_exitfuncs l (x # p) w = run_exitfuncs l p w1"
      using True by (simp add: w1_def)
    show ?thesis
    proof (cases "sid x = sid s")
      case True
      have "Exit_hook (sid s) \<in> set (trace w1)"
        by (simp add: w1_def stop_trace True)
      moreover from run_exitfuncs_trace [of l p w1]
      have "set (trace w1) \<subseteq> set (trace (run_exitfuncs l p w1))" by auto
      ultimately show ?thesis unfolding run by blast
    next
      case False
      with Cons.prems have "s \<in> set p" by auto
      moreover from Cons.prems False have "sid s \<in> sid ` set (exitfuncs w1)"
        by (auto simp: w1_def stop_exitfuncs)
      ultimately show ?thesis unfolding run by (rule Cons.IH)
    qed
  qed
qed

lemma process_exit_calls_registered:
  "s \<in> set (exitfuncs w) \<Longrightarrow> Exit_hook (sid s) \<in> set (trace (process_exit l w))"
  unfolding process_exit_def by (rule run_exitfuncs_calls_registered) auto

lemma process_exit_after_stop:
  "\<exists>t. trace (process_exit l (snd (stop l w s))) = trace (snd (stop l w s)) @ t
        \<and> Exit_hook (sid s) \<notin> set t"
proof -
  from run_exitfuncs_trace [of l "rev (exitfuncs (snd (stop l w s)))" "snd (stop l w s)"]
  obtain t where t: "trace (process_exit l (snd (stop l w s))) = trace (snd (stop l w s)) @ t"
    and h: "\<forall>i. Exit_hook i \<in> set t \<longrightarrow> i \<in> sid ` set (exitfuncs (snd (stop l w s)))"
    unfolding process_exit_def by blast
  have "sid s \<notin> sid ` set (exitfuncs (snd (stop l w s)))"
    by (auto simp: stop_exitfuncs)
  with h have "Exit_hook (sid s) \<notin> set t" by blast
  with t show ?thesis by blast
qed

lemma Session_init_registers:
  "Session_init l w self options eventHandler eventDispatcher = (Inr s, w1)
    \<Longrightarrow> sid s = self \<and> exitfuncs w1 = exitfuncs w @ [s]"
  by (auto simp: Session_init_def Let_def invoke_def split: if_splits)

text \<open>
  C8. A constructor that returns has registered the \<^verbatim>\<open>stop\<close> of the new session with
  \<^verbatim>\<open>atexit\<close>, and the end of the process then invokes that hook. \<^verbatim>\<open>stop\<close> unregisters the
  hook before it calls the library, and leaves no hook of the session in the registry;
  after it, the end of the process does not invoke the hook of that session.
\<close>

theorem exit_hook_registered_until_stop:
  "(Session_init l w self options eventHandler eventDispatcher = (Inr s, w1) \<longrightarrow>
      sid s = self \<and> exitfuncs w1 = exitfuncs w @ [s]
      \<and> Exit_hook (sid s) \<in> set (trace (process_exit l w1)))
   \<and> trace (snd (stop l w s)) =
       trace w @ [Atexit_unregister (sid s), Internals (blpapi_Session_stop (Session_handle s))]
   \<and> exitfuncs (snd (stop l w s)) = filter (\<lambda>t. sid t \<noteq> sid s) (exitfuncs w)
   \<and> (\<exists>t. trace (process_exit l (snd (stop l w s))) = trace (snd (stop l w s)) @ t
          \<and> Exit_hook (sid s) \<notin> set t)"
proof (intro conjI impI)
  assume a: "Session_init l w self options eventHandler eventDispatcher = (Inr s, w1)"
  from Session_init_registers [OF a] show "sid s = self" and e: "exitfuncs w1 = exitfuncs w @ [s]"
    by simp_all
  from e have "s \<in> set (exitfuncs w1)" by simp
  then show "Exit_hook (sid s) \<in> set (trace (process_exit l w1))"
    by (rule process_exit_calls_registered)
next
  show "trace (snd (stop l w s)) =
       trace w @ [Atexit_unregister (sid s), Internals (blpapi_Session_stop (Session_handle s))]"
    by (rule stop_trace)
  show "exitfuncs (snd (stop l w s)) = filter (\<lambda>t. sid t \<noteq> sid s) (exitfuncs w)"
    by (rule stop_exitfuncs)
  show "\<exists>t. trace (process_exit l (snd (stop l w s))) = trace (snd (stop l w s)) @ t
          \<and> Exit_hook (sid s) \<notin> set t"
    by (rule process_exit_after_stop)
qed

lemma init_built:
  "Session_init lib_ok world0 1 PyNone None PyNone = (Inr session_built, world_built)"
  by (simp add: Session_init_def Let_def invoke_def lib_ok_def world0_def session_built_def
      world_built_def)

lemma exit_built:
  "trace (process_exit lib_ok world_built) =
       trace world_built @ [Exit_hook 1, Atexit_unregister 1, Internals (blpapi_Session_stop 7)]"
  by (simp add: process_exit_def stop_def atexit_unregister_def invoke_def Let_def
      session_built_def world_built_def)

lemma exit_stopped:
  "trace (process_exit lib_ok (snd (stop lib_ok world_built session_built))) =
       trace world_built @ [Atexit_unregister 1, Internals (blpapi_Session_stop 7)]"
  by (simp add: process_exit_def stop_def atexit_unregister_def invoke_def Let_def
      session_built_def world_built_def)

text \<open>
  A session is built; the process ends at once, or after the session was stopped.
\<close>

theorem exit_hook_registered_until_stop_witness:
  "Session_init lib_ok world0 1 PyNone None PyNone = (Inr session_built, world_built)
   \<and> trace (process_exit lib_ok world_built) =
       trace world_built @ [Exit_hook 1, Atexit_unregister 1, Internals (blpapi_Session_stop 7)]
   \<and> trace (process_exit lib_ok (snd (stop lib_ok world_built session_built))) =
       trace world_built @ [Atexit_unregister 1, Internals (blpapi_Session_stop 7)]"
  using exit_hook_registered_until_stop
    [of lib_ok world0 1 PyNone None PyNone session_built world_built]
    init_built exit_built exit_stopped
  by - (intro conjI; assumption)

end
